theory Spec2Isabelle
  imports Complex_Main "HOL-Library.AList"
begin

section \<open>JavaScript values\<close>

text \<open>
  The epics of the map-templates workflow and the share panel work on untyped JavaScript
  values: template payloads, map configurations, errors and component props. A value is
  modelled structurally. Numbers are the finite numbers, with \<open>NaN\<close> apart; an object
  is the list of its own enumerable properties in insertion order; \<open>JFun\<close> stands for
  the built-in function that reading \<open>map\<close> of an array yields (the payloads of the
  resource API are JSON and hold no function).
\<close>

datatype jsval =
    JUndefined
  | JNull
  | JBool bool
  | JNum real
  | JNaN
  | JStr string
  | JFun string
  | JArr "jsval list"
  | JObj "(string \<times> jsval) list"

text \<open>What \<open>if (v)\<close>, \<open>!v\<close>, \<open>a || b\<close> and \<open>a && b\<close> test.\<close>

fun truthy :: "jsval \<Rightarrow> bool" where
  "truthy JUndefined = False"
| "truthy JNull = False"
| "truthy (JBool b) = b"
| "truthy (JNum r) = (r \<noteq> 0)"
| "truthy JNaN = False"
| "truthy (JStr s) = (s \<noteq> [])"
| "truthy (JFun f) = True"
| "truthy (JArr xs) = True"
| "truthy (JObj ps) = True"

definition js_or :: "jsval \<Rightarrow> jsval \<Rightarrow> jsval" where
  "js_or a b = (if truthy a then a else b)"

definition js_and :: "jsval \<Rightarrow> jsval \<Rightarrow> jsval" where
  "js_and a b = (if truthy a then b else a)"

definition js_not :: "jsval \<Rightarrow> jsval" where
  "js_not a = JBool (\<not> truthy a)"

text \<open>
  \<open>a === b\<close>. On primitives it compares values, and \<open>NaN\<close> equals nothing. On two
  objects it compares references, which a value does not carry: the comparisons of the
  source all have a primitive on one side (\<open>403\<close>, \<open>404\<close>, \<open>null\<close>,
  \<open>undefined\<close>, \<open>'thumbnail'\<close>) or compare template ids, which are the numbers or
  strings of the resource catalogue, and two objects are never taken as identical.
\<close>

fun primitive :: "jsval \<Rightarrow> bool" where
  "primitive JUndefined = True"
| "primitive JNull = True"
| "primitive (JBool b) = True"
| "primitive (JNum r) = True"
| "primitive (JStr s) = True"
| "primitive v = False"

definition strict_eq :: "jsval \<Rightarrow> jsval \<Rightarrow> bool" where
  "strict_eq a b = (primitive a \<and> a = b)"

text \<open>
  Reading a property of a value that is neither \<open>null\<close> nor \<open>undefined\<close>. The source
  reads fixed names only (\<open>status\<close>, \<open>map\<close>, \<open>zoom\<close>, \<open>id\<close>, ...); of these an
  array inherits \<open>map\<close> from its prototype, and primitives have none.
\<close>

fun get_prop :: "jsval \<Rightarrow> string \<Rightarrow> jsval" where
  "get_prop (JObj ps) k = (case map_of ps k of Some v \<Rightarrow> v | None \<Rightarrow> JUndefined)"
| "get_prop (JArr xs) k = (if k = ''map'' then JFun ''Array.prototype.map'' else JUndefined)"
| "get_prop v k = JUndefined"

text \<open>The exception a property read on \<open>null\<close> or \<open>undefined\<close> throws.\<close>

definition TypeError :: jsval where
  "TypeError = JObj [(''name'', JStr ''TypeError'')]"

definition nullish :: "jsval \<Rightarrow> bool" where
  "nullish v = (v = JUndefined \<or> v = JNull)"

text \<open>\<open>v.k\<close>: throws on \<open>null\<close> and \<open>undefined\<close> (\<open>Inl\<close> is the thrown value).\<close>

definition member :: "jsval \<Rightarrow> string \<Rightarrow> jsval + jsval" where
  "member v k = (if nullish v then Inl TypeError else Inr (get_prop v k))"

text \<open>lodash's \<open>isObject\<close>, \<open>isString\<close> and \<open>isArray\<close>.\<close>

fun isObject :: "jsval \<Rightarrow> bool" where
  "isObject (JObj ps) = True"
| "isObject (JArr xs) = True"
| "isObject (JFun f) = True"
| "isObject v = False"

fun isString :: "jsval \<Rightarrow> bool" where
  "isString (JStr s) = True"
| "isString v = False"

fun isArray :: "jsval \<Rightarrow> bool" where
  "isArray (JArr xs) = True"
| "isArray v = False"

section \<open>Error translation\<close>

text \<open>
  \<open>errorToMessageId (e = {}, getState = () => {})\<close>. The default applies to
  \<open>undefined\<close> only, so \<open>null\<close> reaches \<open>e.status\<close> and throws. \<open>loggedIn\<close> is the
  truth value of \<open>isLoggedIn(getState())\<close>, a selector of the security state. The
  second test is a plain \<open>if\<close>, not an \<open>else if\<close>, as in the source.
\<close>

definition errorToMessageId :: "jsval \<Rightarrow> bool \<Rightarrow> jsval + string" where
  "errorToMessageId e0 loggedIn =
     (let e = (if e0 = JUndefined then JObj [] else e0) in
      case member e ''status'' of
        Inl err \<Rightarrow> Inl err
      | Inr status \<Rightarrow>
          (let message = ''context.errors.template.unknownError'';
               message = (if strict_eq status (JNum 403)
                          then (if loggedIn then ''context.errors.template.notAccessible''
                                else ''context.errors.template.pleaseLogin'')
                          else message);
               message = (if strict_eq status (JNum 404)
                          then ''context.errors.template.notFound'' else message)
           in Inr message))"

section \<open>Objects as lodash and the spread operator see them\<close>

text \<open>The key of an array index: the decimal digits of the index.\<close>

fun index_key :: "nat \<Rightarrow> string" where
  "index_key n =
     (if n < 10 then [char_of (48 + n)]
      else index_key (n div 10) @ [char_of (48 + n mod 10)])"

declare index_key.simps [simp del]

text \<open>
  The own enumerable properties \<open>{...v}\<close> copies: those of an object, the elements of
  an array and the characters of a string under their indices, nothing for the other
  primitives and for a built-in function.
\<close>

fun own_props :: "jsval \<Rightarrow> (string \<times> jsval) list" where
  "own_props (JObj ps) = ps"
| "own_props (JArr xs) = zip (map index_key [0..<length xs]) xs"
| "own_props (JStr s) = zip (map index_key [0..<length s]) (map (\<lambda>c. JStr [c]) s)"
| "own_props v = []"

text \<open>
  \<open>omit(v, key)\<close> builds a plain object of the properties of \<open>v\<close> but \<open>key\<close>.
  \<open>cloneDeep(v)\<close> copies \<open>v\<close>; values carry no reference, so the copy is the value,
  but for a function, which lodash clones to an empty object.
\<close>

definition omit :: "jsval \<Rightarrow> string \<Rightarrow> jsval" where
  "omit v k = JObj (filter (\<lambda>p. fst p \<noteq> k) (own_props v))"

definition cloneDeep :: "jsval \<Rightarrow> jsval" where
  "cloneDeep v = (case v of JFun f \<Rightarrow> JObj [] | _ \<Rightarrow> v)"

section \<open>Observables\<close>

text \<open>
  An observable that has run to its end: the values it emitted in order, how it ended,
  and the ids it asked the resource API's \<open>getData\<close> for while it ran. A promise that
  never settles is outside this model: the collaborators below answer every call.
\<close>

datatype ending = Completed | Errored jsval

record 'a obs =
  emits :: "'a list"
  finish :: ending
  fetches :: "jsval list"

definition Observable_of :: "'a list \<Rightarrow> 'a obs" where
  "Observable_of xs = \<lparr>emits = xs, finish = Completed, fetches = []\<rparr>"

definition Observable_empty :: "'a obs" where
  "Observable_empty = \<lparr>emits = [], finish = Completed, fetches = []\<rparr>"

definition Observable_throw :: "jsval \<Rightarrow> 'a obs" where
  "Observable_throw e = \<lparr>emits = [], finish = Errored e, fetches = []\<rparr>"

text \<open>
  \<open>Observable.defer(() => p)\<close> for a call \<open>p\<close> that threw or whose promise was
  rejected (\<open>Inl\<close>) or fulfilled (\<open>Inr\<close>).
\<close>

definition Observable_defer :: "jsval + 'a \<Rightarrow> 'a obs" where
  "Observable_defer r = (case r of Inl e \<Rightarrow> Observable_throw e | Inr v \<Rightarrow> Observable_of [v])"

definition concat_obs :: "'a obs \<Rightarrow> 'a obs \<Rightarrow> 'a obs" where
  "concat_obs s t =
     (case finish s of
        Completed \<Rightarrow>
          \<lparr>emits = emits s @ emits t, finish = finish t, fetches = fetches s @ fetches t\<rparr>
      | Errored e \<Rightarrow> s)"

text \<open>
  \<open>source.switchMap(project)\<close>. Every source of these epics emits at most one value,
  so no inner observable is ever cancelled by a later value and the operator flattens
  in order. An error of an inner observable ends the result; an exception thrown by
  \<open>project\<close> is the inner observable \<open>Observable_throw\<close>, as the operator forwards it.
\<close>

fun switchMap_items :: "('a \<Rightarrow> 'b obs) \<Rightarrow> 'a list \<Rightarrow> ending \<Rightarrow> 'b obs" where
  "switchMap_items project [] en = \<lparr>emits = [], finish = en, fetches = []\<rparr>"
| "switchMap_items project (x # xs) en = concat_obs (project x) (switchMap_items project xs en)"

definition switchMap :: "('a \<Rightarrow> 'b obs) \<Rightarrow> 'a obs \<Rightarrow> 'b obs" where
  "switchMap project s =
     (let r = switchMap_items project (emits s) (finish s)
      in r\<lparr>fetches := fetches s @ fetches r\<rparr>)"

definition catch_obs :: "(jsval \<Rightarrow> 'a obs) \<Rightarrow> 'a obs \<Rightarrow> 'a obs" where
  "catch_obs selector s =
     (case finish s of
        Completed \<Rightarrow> s
      | Errored e \<Rightarrow>
          (let r = selector e
           in \<lparr>emits = emits s @ emits r, finish = finish r, fetches = fetches s @ fetches r\<rparr>))"

definition startWith :: "'a \<Rightarrow> 'a obs \<Rightarrow> 'a obs" where
  "startWith x s = s\<lparr>emits := x # emits s\<rparr>"

text \<open>
  Modelled from the spec: \<open>wrapStartStop\<close> of \<open>observables/epics\<close>, which is not
  among the sources. The spec has the start action emitted before the resolution, on a
  failure the translated error notification, and in both outcomes the end action last:
  the stream with its errors caught by the exception stream, started with the start
  action and followed by the end action.
\<close>

definition wrapStartStop :: "'a \<Rightarrow> 'a \<Rightarrow> (jsval \<Rightarrow> 'a obs) \<Rightarrow> 'a obs \<Rightarrow> 'a obs" where
  "wrapStartStop startAction endAction createExceptionStream s =
     concat_obs (startWith startAction (catch_obs createExceptionStream s))
       (Observable_of [endAction])"

section \<open>Actions and the state the epics read\<close>

text \<open>
  The actions the epics produce, one constructor for each action creator
  (\<open>setControlProperty\<close>, \<open>setTemplates\<close>, \<open>setMapTemplatesLoaded\<close>,
  \<open>setTemplateData\<close>, \<open>setTemplateLoading\<close>, \<open>configureMap\<close>, \<open>showError\<close>) with
  its arguments; an argument the call leaves out is \<open>JUndefined\<close>.
\<close>

datatype action =
    SetControlProperty string string jsval jsval
  | SetTemplates jsval
  | SetMapTemplatesLoaded bool jsval
  | SetTemplateData jsval jsval
  | SetTemplateLoading jsval bool
  | ConfigureMap jsval jsval jsval
  | ShowError jsval

text \<open>
  What an epic reads from the store and from its collaborators:
  \<^item> \<open>templates\<close>: \<open>templatesSelector(state)\<close>, an array (an unset slice behaves as
    the empty array in \<open>find\<close>);
  \<^item> \<open>currentMap\<close>: \<open>mapSelector(state)\<close>;
  \<^item> \<open>savedConfig\<close>: \<open>MapUtils.saveMapConfiguration\<close> of the current map, layers,
    groups, backgrounds, search configuration and save options;
  \<^item> \<open>loggedIn\<close>: the truth value of \<open>isLoggedIn(getState())\<close>;
  \<^item> \<open>getData\<close>: \<open>Api.getData(id)\<close>; \<open>toMapConfig\<close>: the WMC converter with its
    second argument; \<open>mergeMapConfigs\<close>: \<open>MapUtils.mergeMapConfigs\<close>;
  \<^item> \<open>contextTemplates\<close>, \<open>mapTemplatesLoaded\<close> and \<open>searchListByAttributes\<close>
    (called with the filter) for the templates panel.
  A collaborator answers \<open>Inl e\<close> when it throws or rejects with \<open>e\<close>.
\<close>

record env =
  templates :: "jsval list"
  currentMap :: jsval
  savedConfig :: "jsval + jsval"
  loggedIn :: bool
  getData :: "jsval \<Rightarrow> jsval + jsval"
  toMapConfig :: "string \<Rightarrow> jsval \<Rightarrow> jsval + jsval"
  mergeMapConfigs :: "jsval \<Rightarrow> jsval \<Rightarrow> jsval + jsval"
  contextTemplates :: "jsval list"
  mapTemplatesLoaded :: bool
  searchListByAttributes :: "jsval \<Rightarrow> jsval + jsval"

section \<open>The merge and replace epics\<close>

text \<open>\<open>find(templates, t => t.id === id)\<close>: \<open>undefined\<close> when no template matches.\<close>

fun find_template :: "jsval list \<Rightarrow> jsval \<Rightarrow> jsval + jsval" where
  "find_template [] i = Inr JUndefined"
| "find_template (t # ts) i =
     (case member t ''id'' of
        Inl e \<Rightarrow> Inl e
      | Inr v \<Rightarrow> if strict_eq v i then Inr t else find_template ts i)"

text \<open>\<open>Observable.defer(() => Api.getData(id))\<close>, which records the call.\<close>

definition Api_getData :: "env \<Rightarrow> jsval \<Rightarrow> jsval obs" where
  "Api_getData env i = (Observable_defer (getData env i))\<lparr>fetches := [i]\<rparr>"

text \<open>
  \<open>template.dataLoaded ? Observable.of(template.data) : Observable.defer(...)\<close>, for a
  template that was found.
\<close>

definition templateSource :: "env \<Rightarrow> jsval \<Rightarrow> jsval \<Rightarrow> jsval obs" where
  "templateSource env i template =
     (if truthy (get_prop template ''dataLoaded'')
      then Observable_of [get_prop template ''data'']
      else Api_getData env i)"

text \<open>The exception stream both epics hand to \<open>wrapStartStop\<close>.\<close>

definition errorNotification :: "string \<Rightarrow> jsval" where
  "errorNotification messageId =
     JObj [(''title'', JStr ''context.errors.template.title''),
           (''message'', JStr messageId),
           (''position'', JStr ''tc''),
           (''autoDismiss'', JNum 5)]"

definition templateErrorStream :: "env \<Rightarrow> jsval \<Rightarrow> action obs" where
  "templateErrorStream env e =
     (case member e ''originalError'' of
        Inl err \<Rightarrow> Observable_throw err
      | Inr originalError \<Rightarrow>
          (case errorToMessageId (js_or originalError e) (loggedIn env) of
             Inl err \<Rightarrow> Observable_throw err
           | Inr messageId \<Rightarrow> Observable_of [ShowError (errorNotification messageId)]))"

text \<open>\<open>...(!template.dataLoaded ? [setTemplateData(id, data)] : [])\<close>.\<close>

definition storeData :: "jsval \<Rightarrow> jsval \<Rightarrow> jsval \<Rightarrow> action list" where
  "storeData template i data =
     (if truthy (get_prop template ''dataLoaded'') then [] else [SetTemplateData i data])"

text \<open>The test of the merge epic on the resolved data.\<close>

definition mapShaped :: "jsval \<Rightarrow> bool" where
  "mapShaped data =
     (isObject data \<and> \<not> strict_eq (get_prop data ''map'') JUndefined \<or> isString data)"

definition mergeConfig :: "env \<Rightarrow> jsval \<Rightarrow> jsval \<Rightarrow> jsval \<Rightarrow> jsval \<Rightarrow> jsval \<Rightarrow> action obs" where
  "mergeConfig env template i data currentConfig config =
     (case mergeMapConfigs env currentConfig config of
        Inl e \<Rightarrow> Observable_throw e
      | Inr merged \<Rightarrow>
          Observable_of (storeData template i data @
            [ConfigureMap (cloneDeep (omit merged ''widgetsConfig'')) JNull JUndefined]))"

text \<open>
  \<open>isString(data) ? Observable.defer(() => toMapConfig(data, true)) : Observable.of(data)\<close>:
  the template configuration the merge works on.
\<close>

definition mergeSource :: "env \<Rightarrow> jsval \<Rightarrow> jsval obs" where
  "mergeSource env data =
     (case data of
        JStr s \<Rightarrow> Observable_defer (toMapConfig env s (JBool True))
      | _ \<Rightarrow> Observable_of [data])"

definition mergeData :: "env \<Rightarrow> jsval \<Rightarrow> jsval \<Rightarrow> jsval \<Rightarrow> action obs" where
  "mergeData env template i data =
     (if mapShaped data then
        (case savedConfig env of
           Inl e \<Rightarrow> Observable_throw e
         | Inr currentConfig \<Rightarrow>
             switchMap (mergeConfig env template i data currentConfig) (mergeSource env data))
      else if truthy (get_prop template ''dataLoaded'') then Observable_empty
      else Observable_of [SetTemplateData i data])"

definition mergeTemplateEpic :: "env \<Rightarrow> jsval \<Rightarrow> action obs" where
  "mergeTemplateEpic env i =
     (case find_template (templates env) i of
        Inl e \<Rightarrow> Observable_throw e
      | Inr template \<Rightarrow>
          (case member template ''dataLoaded'' of
             Inl e \<Rightarrow> Observable_throw e
           | Inr dataLoaded \<Rightarrow>
               wrapStartStop (SetTemplateLoading i True) (SetTemplateLoading i False)
                 (templateErrorStream env)
                 (switchMap (mergeData env template i) (templateSource env i template))))"

text \<open>
  The \<open>configureMap(...)\<close> call of the replace epic for a truthy \<open>config\<close>:
  \<open>config.map.zoom\<close> throws when \<open>config.map\<close> is \<open>null\<close> or \<open>undefined\<close>.
  \<open>zoom\<close> and \<open>center\<close> are those of the current map.
\<close>

definition replaceAction :: "jsval \<Rightarrow> jsval \<Rightarrow> jsval \<Rightarrow> jsval + action" where
  "replaceAction zoom center config =
     (let cmap = get_prop config ''map'' in
      if nullish cmap then Inl TypeError
      else Inr (ConfigureMap
        (cloneDeep (JObj (AList.update ''map''
           (JObj (AList.update ''center'' (js_or (get_prop cmap ''center'') center)
                   (AList.update ''zoom'' (js_or (get_prop cmap ''zoom'') zoom)
                      (own_props cmap))))
           (own_props config))))
        JNull
        (js_and (js_not (get_prop cmap ''zoom''))
           (js_or (get_prop cmap ''bbox'') (get_prop cmap ''maxExtent'')))))"

definition replaceConfig :: "jsval \<Rightarrow> jsval \<Rightarrow> jsval \<Rightarrow> jsval \<Rightarrow> jsval \<Rightarrow> jsval \<Rightarrow> action obs" where
  "replaceConfig template i zoom center data config =
     (if truthy config then
        (case replaceAction zoom center config of
           Inl e \<Rightarrow> Observable_throw e
         | Inr a \<Rightarrow> Observable_of (storeData template i data @ [a]))
      else Observable_of (storeData template i data))"

text \<open>
  The template configuration of the replace epic: the converted text, the data when it
  is an object with a \<open>map\<close>, \<open>null\<close> otherwise.
\<close>

definition replaceSource :: "env \<Rightarrow> jsval \<Rightarrow> jsval obs" where
  "replaceSource env data =
     (case data of
        JStr s \<Rightarrow> Observable_defer (toMapConfig env s JUndefined)
      | _ \<Rightarrow> Observable_of
               [if isObject data \<and> \<not> strict_eq (get_prop data ''map'') JUndefined
                then data else JNull])"

definition replaceData :: "env \<Rightarrow> jsval \<Rightarrow> jsval \<Rightarrow> jsval \<Rightarrow> jsval \<Rightarrow> jsval \<Rightarrow> action obs" where
  "replaceData env template i zoom center data =
     switchMap (replaceConfig template i zoom center data) (replaceSource env data)"

definition replaceTemplateEpic :: "env \<Rightarrow> jsval \<Rightarrow> action obs" where
  "replaceTemplateEpic env i =
     (case find_template (templates env) i of
        Inl e \<Rightarrow> Observable_throw e
      | Inr template \<Rightarrow>
          (case member (currentMap env) ''zoom'' of
             Inl e \<Rightarrow> Observable_throw e
           | Inr zoom \<Rightarrow>
               (case member template ''dataLoaded'' of
                  Inl e \<Rightarrow> Observable_throw e
                | Inr dataLoaded \<Rightarrow>
                    wrapStartStop (SetTemplateLoading i True) (SetTemplateLoading i False)
                      (templateErrorStream env)
                      (switchMap
                         (replaceData env template i zoom (get_prop (currentMap env) ''center''))
                         (templateSource env i template)))))"

section \<open>The templates panel epic\<close>

text \<open>
  lodash's \<open>get(v, path, default)\<close>: the walk stops at \<open>null\<close> and \<open>undefined\<close>,
  and the default stands in for \<open>undefined\<close> only.
\<close>

fun get_path :: "jsval \<Rightarrow> string list \<Rightarrow> jsval" where
  "get_path v [] = v"
| "get_path v (k # ks) = (if nullish v then JUndefined else get_path (get_prop v k) ks)"

definition lodash_get :: "jsval \<Rightarrow> string list \<Rightarrow> jsval \<Rightarrow> jsval" where
  "lodash_get v path dflt = (let r = get_path v path in if r = JUndefined then dflt else r)"

text \<open>
  \<open>pick(resource, 'id', 'name', 'description')\<close>: the named properties the resource
  has, in the order asked; nothing for a value that is not an object.
\<close>

definition pick :: "jsval \<Rightarrow> string list \<Rightarrow> (string \<times> jsval) list" where
  "pick v ks =
     (case v of
        JObj ps \<Rightarrow>
          concat (map (\<lambda>k. case map_of ps k of Some x \<Rightarrow> [(k, x)] | None \<Rightarrow> []) ks)
      | _ \<Rightarrow> [])"

text \<open>
  \<open>makeFilter\<close>: one field for each context template; \<open>template.id\<close> throws on a
  \<open>null\<close> template.
\<close>

fun filterFields :: "jsval list \<Rightarrow> jsval + jsval list" where
  "filterFields [] = Inr []"
| "filterFields (template # rest) =
     (case member template ''id'' of
        Inl e \<Rightarrow> Inl e
      | Inr v \<Rightarrow>
          (case filterFields rest of
             Inl e \<Rightarrow> Inl e
           | Inr fs \<Rightarrow>
               Inr (JObj [(''field'', JArr [JStr ''ID'']),
                          (''operator'', JArr [JStr ''EQUAL_TO'']),
                          (''value'', JArr [v])] # fs)))"

definition makeFilter :: "jsval list \<Rightarrow> jsval + jsval" where
  "makeFilter cts =
     (case filterFields cts of
        Inl e \<Rightarrow> Inl e
      | Inr fs \<Rightarrow> Inr (JObj [(''OR'', JObj [(''FIELD'', JArr fs)])]))"

text \<open>
  \<open>find(attributes, ({name}) => name === 'thumbnail')\<close>: destructuring throws on a
  \<open>null\<close> attribute.
\<close>

fun find_thumbnail :: "jsval list \<Rightarrow> jsval + jsval" where
  "find_thumbnail [] = Inr JUndefined"
| "find_thumbnail (a # as) =
     (case member a ''name'' of
        Inl e \<Rightarrow> Inl e
      | Inr n \<Rightarrow> if strict_eq n (JStr ''thumbnail'') then Inr a else find_thumbnail as)"

definition extractThumbnail :: "jsval \<Rightarrow> jsval + jsval" where
  "extractThumbnail resource =
     (let attribute = lodash_get resource [''Attributes'', ''attribute''] (JObj []);
          attributes = (case attribute of JArr as \<Rightarrow> as | _ \<Rightarrow> [attribute])
      in case find_thumbnail attributes of
           Inl e \<Rightarrow> Inl e
         | Inr a \<Rightarrow> Inr (lodash_get a [''value''] JUndefined))"

definition newTemplate :: "jsval \<Rightarrow> jsval + jsval" where
  "newTemplate resource =
     (case extractThumbnail resource of
        Inl e \<Rightarrow> Inl e
      | Inr thumbnail \<Rightarrow>
          Inr (JObj (AList.update ''loading'' (JBool False)
                 (AList.update ''dataLoaded'' (JBool False)
                    (AList.update ''thumbnail'' thumbnail
                       (pick resource [''id'', ''name'', ''description'']))))))"

fun newTemplates :: "jsval list \<Rightarrow> jsval + jsval list" where
  "newTemplates [] = Inr []"
| "newTemplates (resource # rest) =
     (case newTemplate resource of
        Inl e \<Rightarrow> Inl e
      | Inr t \<Rightarrow> (case newTemplates rest of Inl e \<Rightarrow> Inl e | Inr ts \<Rightarrow> Inr (t # ts)))"

text \<open>The resources of a search result: a single resource is wrapped into an array.\<close>

definition resourcesOf :: "jsval \<Rightarrow> jsval list" where
  "resourcesOf data =
     (let resourceObj = lodash_get data [''ResourceList'', ''Resource''] (JArr [])
      in case resourceObj of JArr rs \<Rightarrow> rs | _ \<Rightarrow> [resourceObj])"

definition templatesLoaded :: "jsval \<Rightarrow> action obs" where
  "templatesLoaded data =
     (case newTemplates (resourcesOf data) of
        Inl e \<Rightarrow> Observable_throw e
      | Inr ts \<Rightarrow> Observable_of [SetTemplates (JArr ts), SetMapTemplatesLoaded True JUndefined])"

text \<open>
  The search for the context's templates, or \<open>Observable.of({})\<close> when the context
  has none. \<open>makeFilter\<close> runs inside \<open>defer\<close>, so what it throws is an error of
  the observable.
\<close>

definition searchSource :: "env \<Rightarrow> jsval obs" where
  "searchSource env =
     (if 0 < length (contextTemplates env)
      then Observable_defer
             (case makeFilter (contextTemplates env) of
                Inl e \<Rightarrow> Inl e
              | Inr f \<Rightarrow> searchListByAttributes env f)
      else Observable_of [JObj []])"

definition openMapTemplatesPanelEpic :: "env \<Rightarrow> action obs" where
  "openMapTemplatesPanelEpic env =
     concat_obs
       (Observable_of [SetControlProperty ''mapTemplates'' ''enabled'' (JBool True) (JBool True)])
       (if mapTemplatesLoaded env then Observable_empty
        else catch_obs (\<lambda>err. Observable_of [SetMapTemplatesLoaded True err])
               (switchMap templatesLoaded (searchSource env)))"

section \<open>The share panel's coordinates\<close>

text \<open>
  \<open>getLatLng(point)\<close>. \<open>correctLng\<close> is the double arithmetic the source applies to
  \<open>latlng.lng\<close> (rounding to 17 decimals, then wrapping by 360); it runs only for a
  truthy \<open>latlng\<close>.
\<close>

definition getLatLng :: "(jsval \<Rightarrow> jsval) \<Rightarrow> jsval \<Rightarrow> jsval" where
  "getLatLng correctLng point =
     (let latlng = js_or (js_and point (get_prop point ''latlng'')) JNull;
          lngCorrected = (if truthy latlng then correctLng (get_prop latlng ''lng'') else JNull)
      in JObj [(''lat'', js_and latlng (get_prop latlng ''lat'')), (''lon'', lngCorrected)])"

text \<open>
  Every evaluation of an object literal makes a new object, so the object
  \<open>getCoordinates\<close> returns is told apart by the literal that made it: the one of
  \<open>getLatLng\<close>, \<open>{lat: y, lon: x}\<close>, or the fallback \<open>{lat: "", lon: ""}\<close>.
\<close>

datatype literal = LatLngObject | CenterObject | FallbackObject

text \<open>\<open>a || b\<close> on operands that carry the literal they come from.\<close>

definition or_literal :: "literal \<times> jsval \<Rightarrow> literal \<times> jsval \<Rightarrow> literal \<times> jsval" where
  "or_literal a b = (if truthy (snd a) then a else b)"

text \<open>
  \<open>getCoordinates(props)\<close>. The conditional binds weaker than \<open>||\<close>:
  \<open>c ? latLng : ({lat: y, lon: x} || {lat: "", lon: ""})\<close>.
\<close>

definition getCoordinates :: "(jsval \<Rightarrow> jsval) \<Rightarrow> jsval \<Rightarrow> jsval + literal \<times> jsval" where
  "getCoordinates correctLng props =
     (case member props ''point'' of
        Inl e \<Rightarrow> Inl e
      | Inr point \<Rightarrow>
          (let latLng = getLatLng correctLng point;
               c = js_or (get_prop props ''center'') (JObj [(''x'', JStr []), (''y'', JStr [])]);
               x = get_prop c ''x'';
               y = get_prop c ''y''
           in Inr (if truthy latLng \<and> \<not> strict_eq (get_prop latLng ''lat'') JNull
                   then (LatLngObject, latLng)
                   else or_literal (CenterObject, JObj [(''lat'', y), (''lon'', x)])
                          (FallbackObject, JObj [(''lat'', JStr []), (''lon'', JStr [])]))))"

section \<open>The loading actions\<close>

fun loadingAction :: "action \<Rightarrow> bool" where
  "loadingAction (SetTemplateLoading i b) = True"
| "loadingAction a = False"

section \<open>The spec's error table\<close>

text \<open>
  The translation as the spec words it: 403 gives "please log in" to a user who is not
  authenticated and "not accessible" to one who is, 404 gives "not found", anything
  else "unknown error".
\<close>

definition spec_messageId :: "jsval \<Rightarrow> bool \<Rightarrow> string" where
  "spec_messageId status authenticated =
     (if status = JNum 403
      then (if authenticated then ''context.errors.template.notAccessible''
            else ''context.errors.template.pleaseLogin'')
      else if status = JNum 404 then ''context.errors.template.notFound''
      else ''context.errors.template.unknownError'')"

section \<open>An example state\<close>

text \<open>
  A store with four templates: the first is loaded and its configuration has zoom 0, a
  centre and a bounding box; the second is not loaded yet; the data of the third is a
  number; the data of the fourth is a configuration without \<open>map\<close>. The current map is at zoom 5. The resource API knows the data of template 2
  and answers 404 for every other id; the converter rejects every text; the merge
  utility takes the map of the template and the layers and widgets of the current
  configuration; the search returns a single resource.
\<close>

definition exampleConfig :: jsval where
  "exampleConfig =
     JObj [(''version'', JNum 2),
           (''map'', JObj [(''zoom'', JNum 0),
                           (''center'', JObj [(''x'', JNum 11), (''y'', JNum 44)]),
                           (''bbox'', JObj [(''crs'', JStr ''EPSG:4326'')])])]"

definition exampleTemplates :: "jsval list" where
  "exampleTemplates =
     [JObj [(''id'', JNum 1), (''dataLoaded'', JBool True), (''loading'', JBool False),
            (''data'', exampleConfig)],
      JObj [(''id'', JNum 2), (''dataLoaded'', JBool False), (''loading'', JBool False)],
      JObj [(''id'', JNum 3), (''dataLoaded'', JBool True), (''loading'', JBool False),
            (''data'', JNum 7)],
      JObj [(''id'', JNum 4), (''dataLoaded'', JBool True), (''loading'', JBool False),
            (''data'', JObj [(''version'', JNum 2), (''layers'', JArr [])])]]"

definition exampleEnv :: env where
  "exampleEnv =
     \<lparr>templates = exampleTemplates,
      currentMap = JObj [(''zoom'', JNum 5),
                         (''center'', JObj [(''x'', JNum 10), (''y'', JNum 43)]),
                         (''projection'', JStr ''EPSG:3857'')],
      savedConfig = Inr (JObj [(''layers'', JArr [JStr ''osm'']), (''widgetsConfig'', JObj [])]),
      loggedIn = False,
      getData = (\<lambda>i. if i = JNum 2 then Inr (JObj [(''map'', JObj [(''zoom'', JNum 3)])])
                     else Inl (JObj [(''status'', JNum 404)])),
      toMapConfig = (\<lambda>s g. Inl (JObj [(''message'', JStr ''not a WMC document'')])),
      mergeMapConfigs = (\<lambda>cur new.
         Inr (JObj [(''map'', get_prop new ''map''),
                    (''layers'', get_prop cur ''layers''),
                    (''widgetsConfig'', get_prop cur ''widgetsConfig'')])),
      contextTemplates = [JObj [(''id'', JNum 1)]],
      mapTemplatesLoaded = False,
      searchListByAttributes = (\<lambda>f.
         Inr (JObj [(''ResourceList'',
                JObj [(''Resource'', JObj [(''id'', JNum 1), (''name'', JStr ''base'')])])]))\<rparr>"


definition convertingEnv :: env where
  "convertingEnv =
     exampleEnv\<lparr>getData := (\<lambda>i. Inr (JStr ''<ViewContext/>'')),
                toMapConfig := (\<lambda>s g. if s = ''<ViewContext/>'' \<and> g = JBool True
                                       then Inr exampleConfig
                                       else Inl (JObj [(''message'', JStr ''not a WMC document'')]))\<rparr>"

section \<open>Properties\<close>

subsection \<open>Values\<close>

lemma strict_eq_prim [simp]:
  "strict_eq v JNull = (v = JNull)"
  "strict_eq v JUndefined = (v = JUndefined)"
  "strict_eq v (JNum n) = (v = JNum n)"
  "strict_eq v (JStr s) = (v = JStr s)"
  by (cases v; auto simp: strict_eq_def)+

lemma member_Inr_iff: "member v k = Inr x \<longleftrightarrow> \<not> nullish v \<and> x = get_prop v k"
  by (auto simp: member_def)

lemma js_or_not_null: "\<not> nullish e \<Longrightarrow> js_or oe e \<noteq> JNull"
  by (cases oe) (auto simp: js_or_def nullish_def)

subsection \<open>Error translation\<close>

lemma errorToMessageId_not_null:
  "e \<noteq> JNull \<Longrightarrow> errorToMessageId e li = Inr (spec_messageId (get_prop e ''status'') li)"
  by (auto simp: errorToMessageId_def member_def nullish_def spec_messageId_def Let_def)

subsection \<open>Observables\<close>

lemma obs_simps [simp]:
  "emits (Observable_of xs) = xs" "finish (Observable_of (xs :: 'a list)) = Completed"
  "fetches (Observable_of xs) = []"
  "emits (Observable_empty :: 'a obs) = []" "finish (Observable_empty :: 'a obs) = Completed"
  "fetches (Observable_empty :: 'a obs) = []"
  "emits (Observable_throw e :: 'a obs) = []" "finish (Observable_throw e :: 'a obs) = Errored e"
  "fetches (Observable_throw e :: 'a obs) = []"
  by (simp_all add: Observable_of_def Observable_empty_def Observable_throw_def)

lemma concat_obs_fields:
  "emits (concat_obs s t) = (case finish s of Completed \<Rightarrow> emits s @ emits t | Errored e \<Rightarrow> emits s)"
  "finish (concat_obs s t) = (case finish s of Completed \<Rightarrow> finish t | Errored e \<Rightarrow> Errored e)"
  "fetches (concat_obs s t) = (case finish s of Completed \<Rightarrow> fetches s @ fetches t | Errored e \<Rightarrow> fetches s)"
  by (simp_all add: concat_obs_def split: ending.splits)

lemma switchMap_fields:
  "emits (switchMap f s) = emits (switchMap_items f (emits s) (finish s))"
  "finish (switchMap f s) = finish (switchMap_items f (emits s) (finish s))"
  "fetches (switchMap f s) = fetches s @ fetches (switchMap_items f (emits s) (finish s))"
  by (simp_all add: switchMap_def Let_def)

lemma concat_obs_done [simp]:
  "concat_obs s \<lparr>emits = [], finish = Completed, fetches = []\<rparr> = s"
  by (cases "finish s") (simp_all add: concat_obs_def)

lemma switchMap_of_single: "switchMap f (Observable_of [x]) = f x"
  by (rule obs.equality) (simp_all add: switchMap_fields)

lemma switchMap_throw: "switchMap f (Observable_throw e) = Observable_throw e"
  by (rule obs.equality) (simp_all add: switchMap_fields)

lemma fetches_switchMap_items:
  "(\<And>x. fetches (f x) = []) \<Longrightarrow> fetches (switchMap_items f xs en) = []"
  by (induction xs) (simp_all add: concat_obs_fields split: ending.splits)

lemma fetches_switchMap:
  "(\<And>x. fetches (f x) = []) \<Longrightarrow> fetches (switchMap f s) = fetches s"
  by (simp add: switchMap_fields fetches_switchMap_items)

lemma catch_obs_fields:
  "emits (catch_obs h s) = (case finish s of Completed \<Rightarrow> emits s | Errored e \<Rightarrow> emits s @ emits (h e))"
  "finish (catch_obs h s) = (case finish s of Completed \<Rightarrow> Completed | Errored e \<Rightarrow> finish (h e))"
  "fetches (catch_obs h s) = (case finish s of Completed \<Rightarrow> fetches s | Errored e \<Rightarrow> fetches s @ fetches (h e))"
  by (simp_all add: catch_obs_def Let_def split: ending.splits)

lemma wrapStartStop_fields:
  "emits (wrapStartStop a b h s) =
     (case finish s of
        Completed \<Rightarrow> a # emits s @ [b]
      | Errored e \<Rightarrow>
          (case finish (h e) of
             Completed \<Rightarrow> a # emits s @ emits (h e) @ [b]
           | Errored e' \<Rightarrow> a # emits s @ emits (h e)))"
  "finish (wrapStartStop a b h s) =
     (case finish s of Completed \<Rightarrow> Completed | Errored e \<Rightarrow> finish (h e))"
  "fetches (wrapStartStop a b h s) =
     (case finish s of Completed \<Rightarrow> fetches s | Errored e \<Rightarrow> fetches s @ fetches (h e))"
  by (simp_all add: wrapStartStop_def concat_obs_fields catch_obs_fields startWith_def
      split: ending.splits)

lemma switchMap_single_source:
  assumes "emits s = [x]" "finish s = Completed"
  shows "emits (switchMap f s) = emits (f x)" "finish (switchMap f s) = finish (f x)"
  using assms by (simp_all add: switchMap_fields)

lemma switchMap_failed_source:
  assumes "emits s = []"
  shows "emits (switchMap f s) = []" "finish (switchMap f s) = finish s"
  using assms by (simp_all add: switchMap_fields)

lemma emits_wrapStartStop_cases:
  assumes "x \<in> set (emits (wrapStartStop a b h s))"
  shows "x = a \<or> x = b \<or> x \<in> set (emits s) \<or> (\<exists>e. finish s = Errored e \<and> x \<in> set (emits (h e)))"
  using assms by (auto simp: wrapStartStop_fields split: ending.splits)

text \<open>The equations that evaluate an epic on a concrete state.\<close>

lemmas epic_defs =
  mergeTemplateEpic_def replaceTemplateEpic_def member_def nullish_def wrapStartStop_fields
  templateSource_def Api_getData_def Observable_defer_def mergeData_def mergeConfig_def
  mergeSource_def mapShaped_def storeData_def replaceData_def replaceSource_def
  replaceConfig_def replaceAction_def templateErrorStream_def errorToMessageId_def
  errorNotification_def switchMap_of_single switchMap_throw switchMap_fields
  omit_def cloneDeep_def js_or_def js_and_def js_not_def TypeError_def

subsection \<open>Resolving the template\<close>

lemma fetches_templateErrorStream [simp]: "fetches (templateErrorStream env e) = []"
  by (simp add: templateErrorStream_def split: sum.splits)

lemma fetches_mergeConfig [simp]: "fetches (mergeConfig env t i data cur config) = []"
  by (simp add: mergeConfig_def split: sum.splits)

lemma fetches_mergeSource [simp]: "fetches (mergeSource env data) = []"
  by (simp add: mergeSource_def Observable_defer_def split: sum.splits jsval.splits)

lemma fetches_mergeData [simp]: "fetches (mergeData env t i data) = []"
  by (simp add: mergeData_def fetches_switchMap split: sum.splits)

lemma fetches_replaceConfig [simp]: "fetches (replaceConfig t i z c data config) = []"
  by (simp add: replaceConfig_def split: sum.splits)

lemma fetches_replaceSource [simp]: "fetches (replaceSource env data) = []"
  by (simp add: replaceSource_def Observable_defer_def split: sum.splits jsval.splits)

lemma fetches_replaceData [simp]: "fetches (replaceData env t i z c data) = []"
  by (simp add: replaceData_def fetches_switchMap)

lemma fetches_templateSource:
  "fetches (templateSource env i t) = (if truthy (get_prop t ''dataLoaded'') then [] else [i])"
  by (simp add: templateSource_def Api_getData_def)

lemma fetches_mergeTemplateEpic:
  assumes "find_template (templates env) i = Inr template"
  shows "fetches (mergeTemplateEpic env i) =
           (if truthy (get_prop template ''dataLoaded'') \<or> nullish template then [] else [i])"
  using assms
  by (auto simp: mergeTemplateEpic_def member_def wrapStartStop_fields fetches_switchMap
      fetches_templateSource nullish_def split: ending.splits)

lemma fetches_replaceTemplateEpic:
  assumes "find_template (templates env) i = Inr template"
  shows "fetches (replaceTemplateEpic env i) =
           (if truthy (get_prop template ''dataLoaded'') \<or> nullish template \<or> nullish (currentMap env)
            then [] else [i])"
  using assms
  by (auto simp: replaceTemplateEpic_def member_def wrapStartStop_fields fetches_switchMap
      fetches_templateSource nullish_def split: ending.splits)

lemma mergeData_getData [simp]: "mergeData (env\<lparr>getData := g\<rparr>) = mergeData env"
  by (intro ext) (simp add: mergeData_def mergeConfig_def[abs_def] mergeSource_def
      cong: jsval.case_cong sum.case_cong)

lemma replaceData_getData [simp]: "replaceData (env\<lparr>getData := g\<rparr>) = replaceData env"
  by (intro ext) (simp add: replaceData_def replaceSource_def cong: jsval.case_cong sum.case_cong)

lemma templateErrorStream_getData [simp]:
  "templateErrorStream (env\<lparr>getData := g\<rparr>) = templateErrorStream env"
  by (intro ext) (simp add: templateErrorStream_def cong: jsval.case_cong sum.case_cong)

lemma templateSource_loaded:
  "truthy (get_prop t ''dataLoaded'') \<Longrightarrow> templateSource env i t = Observable_of [get_prop t ''data'']"
  by (simp add: templateSource_def)

lemma merge_cached:
  assumes "find_template (templates env) i = Inr template"
    and "truthy (get_prop template ''dataLoaded'')"
  shows "mergeTemplateEpic (env\<lparr>getData := g\<rparr>) i = mergeTemplateEpic env i"
  using assms by (simp add: mergeTemplateEpic_def templateSource_loaded split: sum.splits)

lemma replace_cached:
  assumes "find_template (templates env) i = Inr template"
    and "truthy (get_prop template ''dataLoaded'')"
  shows "replaceTemplateEpic (env\<lparr>getData := g\<rparr>) i = replaceTemplateEpic env i"
  using assms by (simp add: replaceTemplateEpic_def templateSource_loaded split: sum.splits)

lemma find_example_1:
  "find_template (templates exampleEnv) (JNum 1) = Inr (exampleTemplates ! 0)"
  by (simp add: exampleEnv_def exampleTemplates_def member_def nullish_def)

lemma find_example_2:
  "find_template (templates exampleEnv) (JNum 2) = Inr (exampleTemplates ! 1)"
  by (simp add: exampleEnv_def exampleTemplates_def member_def nullish_def)

text \<open>
  C1. For a template that \<open>find\<close> returns, each epic asks the resource API for data
  exactly when the template's \<open>dataLoaded\<close> is not truthy (and the epic gets as far
  as resolving it); with \<open>dataLoaded\<close> truthy the source of the pipeline is the cached
  \<open>data\<close>, no call is made, and the whole outcome is the same whatever the resource
  API would answer.
\<close>

theorem cached_data_no_fetch:
  assumes "find_template (templates env) i = Inr template"
  shows "fetches (mergeTemplateEpic env i) =
           (if truthy (get_prop template ''dataLoaded'') \<or> nullish template then [] else [i]) \<and>
         fetches (replaceTemplateEpic env i) =
           (if truthy (get_prop template ''dataLoaded'') \<or> nullish template \<or>
               nullish (currentMap env)
            then [] else [i]) \<and>
         (truthy (get_prop template ''dataLoaded'') \<longrightarrow>
            templateSource env i template = Observable_of [get_prop template ''data''] \<and>
            mergeTemplateEpic (env\<lparr>getData := g\<rparr>) i = mergeTemplateEpic env i \<and>
            replaceTemplateEpic (env\<lparr>getData := g\<rparr>) i = replaceTemplateEpic env i)"
  using fetches_mergeTemplateEpic [OF assms] fetches_replaceTemplateEpic [OF assms]
    merge_cached [OF assms] replace_cached [OF assms] templateSource_loaded
  by simp

theorem cached_data_no_fetch_witness:
  "fetches (mergeTemplateEpic exampleEnv (JNum 1)) = [] \<and>
   fetches (replaceTemplateEpic exampleEnv (JNum 1)) = [] \<and>
   mergeTemplateEpic (exampleEnv\<lparr>getData := (\<lambda>i. Inl JNull)\<rparr>) (JNum 1) =
     mergeTemplateEpic exampleEnv (JNum 1) \<and>
   fetches (mergeTemplateEpic exampleEnv (JNum 2)) = [JNum 2] \<and>
   fetches (replaceTemplateEpic exampleEnv (JNum 2)) = [JNum 2]"
  using cached_data_no_fetch [OF find_example_1, of "\<lambda>i. Inl JNull"]
    cached_data_no_fetch [OF find_example_2, of "\<lambda>i. Inl JNull"]
  by (simp add: exampleTemplates_def nullish_def exampleEnv_def)

subsection \<open>The merge epic\<close>

lemma templateSource_cases:
  "(\<exists>data. emits (templateSource env i t) = [data] \<and> finish (templateSource env i t) = Completed) \<or>
   (\<exists>e. emits (templateSource env i t) = [] \<and> finish (templateSource env i t) = Errored e)"
  by (cases "getData env i")
     (simp_all add: templateSource_def Api_getData_def Observable_defer_def)

lemma mergeSource_cases:
  "(\<exists>config. emits (mergeSource env data) = [config] \<and> finish (mergeSource env data) = Completed) \<or>
   (\<exists>e. emits (mergeSource env data) = [] \<and> finish (mergeSource env data) = Errored e)"
  by (simp add: mergeSource_def Observable_defer_def split: jsval.splits sum.splits)

lemma replaceSource_cases:
  "(\<exists>config. emits (replaceSource env data) = [config] \<and> finish (replaceSource env data) = Completed) \<or>
   (\<exists>e. emits (replaceSource env data) = [] \<and> finish (replaceSource env data) = Errored e)"
  by (simp add: replaceSource_def Observable_defer_def split: jsval.splits sum.splits)

lemma emits_templateErrorStream:
  "x \<in> set (emits (templateErrorStream env e)) \<Longrightarrow> \<exists>n. x = ShowError n"
  by (auto simp: templateErrorStream_def split: sum.splits)

lemma ConfigureMap_in_wrap:
  assumes "ConfigureMap c m z \<in> set (emits (wrapStartStop (SetTemplateLoading i a)
             (SetTemplateLoading j b) (templateErrorStream env) s))"
  shows "ConfigureMap c m z \<in> set (emits s)"
  using emits_wrapStartStop_cases [OF assms] emits_templateErrorStream by fastforce

lemma storeData_cases: "x \<in> set (storeData t i data) \<Longrightarrow> x = SetTemplateData i data"
  by (auto simp: storeData_def split: if_splits)

lemma cloneDeep_omit [simp]: "cloneDeep (omit v k) = omit v k"
  by (simp add: cloneDeep_def omit_def)

lemma map_of_filter_key:
  "map_of (filter (\<lambda>p. fst p \<noteq> k) ps) k' = (if k' = k then None else map_of ps k')"
  by (induction ps) auto

lemma map_of_omit:
  "map_of (own_props (omit v k)) k' = (if k' = k then None else map_of (own_props v) k')"
  by (simp add: omit_def map_of_filter_key)

lemma templateSource_finish:
  "emits (templateSource env i t) = [data] \<Longrightarrow> finish (templateSource env i t) = Completed"
  using templateSource_cases [of env i t] by auto

lemma templateSource_emits_iff:
  "emits (templateSource env i t) = [data] \<longleftrightarrow>
     (if truthy (get_prop t ''dataLoaded'') then data = get_prop t ''data''
      else getData env i = Inr data)"
  by (cases "getData env i")
     (auto simp: templateSource_def Api_getData_def Observable_defer_def)

lemma mergeSource_emits_iff:
  "emits (mergeSource env data) = [config] \<longleftrightarrow>
     (case data of JStr s \<Rightarrow> toMapConfig env s (JBool True) = Inr config | _ \<Rightarrow> config = data)"
  by (cases data)
     (auto simp: mergeSource_def Observable_defer_def split: sum.splits)

lemma mergeSource_finish:
  "emits (mergeSource env data) = [config] \<Longrightarrow> finish (mergeSource env data) = Completed"
  using mergeSource_cases [of env data] by auto

lemma replaceSource_finish:
  "emits (replaceSource env data) = [config] \<Longrightarrow> finish (replaceSource env data) = Completed"
  using replaceSource_cases [of env data] by auto

text \<open>
  C3. A merge succeeds when the template is found, its data is resolved (cached, or
  fetched without error) and is a string or an object with a \<open>map\<close>, the template
  configuration is obtained (the data itself, or the converted text), and the saved
  current configuration and the merge utility return. The epic then emits, between
  the loading actions and after the \<open>SetTemplateData\<close> of a first fetch, exactly one
  \<open>ConfigureMap\<close>, and its configuration is the merge of the saved current
  configuration with the template configuration without \<open>widgetsConfig\<close>, every
  other property being that of the merge. (\<open>merge_dispatch_origin\<close> is the
  converse: the epic emits no other \<open>ConfigureMap\<close>.)
\<close>

theorem merge_dispatches_merged_config:
  assumes "find_template (templates env) i = Inr template" and "\<not> nullish template"
    and "if truthy (get_prop template ''dataLoaded'') then data = get_prop template ''data''
         else getData env i = Inr data"
    and "isObject data \<and> get_prop data ''map'' \<noteq> JUndefined \<or> isString data"
    and "case data of JStr s \<Rightarrow> toMapConfig env s (JBool True) = Inr config | _ \<Rightarrow> config = data"
    and "savedConfig env = Inr currentConfig"
    and "mergeMapConfigs env currentConfig config = Inr merged"
  shows "emits (mergeTemplateEpic env i) =
           SetTemplateLoading i True #
           (if truthy (get_prop template ''dataLoaded'') then [] else [SetTemplateData i data]) @
           [ConfigureMap (omit merged ''widgetsConfig'') JNull JUndefined,
            SetTemplateLoading i False] \<and>
         finish (mergeTemplateEpic env i) = Completed \<and>
         get_prop (omit merged ''widgetsConfig'') ''widgetsConfig'' = JUndefined \<and>
         (\<forall>k. k \<noteq> ''widgetsConfig'' \<longrightarrow>
              map_of (own_props (omit merged ''widgetsConfig'')) k = map_of (own_props merged) k)"
proof -
  let ?src = "templateSource env i template"
  let ?inner = "switchMap (mergeData env template i) ?src"
  let ?cfg = "mergeSource env data"
  let ?out = "(if truthy (get_prop template ''dataLoaded'') then [] else [SetTemplateData i data]) @
           [ConfigureMap (omit merged ''widgetsConfig'') JNull JUndefined]"
  have src: "emits ?src = [data]"
    using assms(3) by (simp only: templateSource_emits_iff)
  have srcf: "finish ?src = Completed"
    using src by (rule templateSource_finish)
  have cfg: "emits ?cfg = [config]"
    using assms(5) by (simp only: mergeSource_emits_iff)
  have cfgf: "finish ?cfg = Completed"
    using cfg by (rule mergeSource_finish)
  have shaped: "mapShaped data"
    using assms(4) by (simp add: mapShaped_def)
  have mc: "emits (mergeConfig env template i data currentConfig config) = ?out"
      "finish (mergeConfig env template i data currentConfig config) = Completed"
    using assms(7) by (simp_all add: mergeConfig_def storeData_def)
  have md: "mergeData env template i data =
      switchMap (mergeConfig env template i data currentConfig) ?cfg"
    using shaped assms(6) by (simp add: mergeData_def)
  have inner: "emits ?inner = ?out" "finish ?inner = Completed"
    using mc by (simp_all add: switchMap_single_source [OF src srcf] md
        switchMap_single_source [OF cfg cfgf])
  have epic: "mergeTemplateEpic env i =
      wrapStartStop (SetTemplateLoading i True) (SetTemplateLoading i False)
        (templateErrorStream env) ?inner"
    using assms(1,2) by (simp add: mergeTemplateEpic_def member_def)
  have em: "emits (mergeTemplateEpic env i) =
           SetTemplateLoading i True #
           (if truthy (get_prop template ''dataLoaded'') then [] else [SetTemplateData i data]) @
           [ConfigureMap (omit merged ''widgetsConfig'') JNull JUndefined,
            SetTemplateLoading i False]"
    and fi: "finish (mergeTemplateEpic env i) = Completed"
    unfolding epic using inner by (simp_all add: wrapStartStop_fields)
  have w: "get_prop (omit merged ''widgetsConfig'') ''widgetsConfig'' = JUndefined"
    by (simp add: omit_def map_of_filter_key)
  have k: "\<forall>k. k \<noteq> ''widgetsConfig'' \<longrightarrow>
              map_of (own_props (omit merged ''widgetsConfig'')) k = map_of (own_props merged) k"
    by (simp add: map_of_omit)
  from em fi w k show ?thesis by (intro conjI)
qed

lemma find_converting_2:
  "find_template (templates convertingEnv) (JNum 2) = Inr (exampleTemplates ! 1)"
  by (simp add: convertingEnv_def exampleEnv_def exampleTemplates_def member_def nullish_def)

theorem merge_dispatches_merged_config_witness:
  "emits (mergeTemplateEpic exampleEnv (JNum 1)) =
     [SetTemplateLoading (JNum 1) True,
      ConfigureMap
        (omit (JObj [(''map'', get_prop exampleConfig ''map''), (''layers'', JArr [JStr ''osm'']),
                     (''widgetsConfig'', JObj [])]) ''widgetsConfig'')
        JNull JUndefined,
      SetTemplateLoading (JNum 1) False] \<and>
   emits (mergeTemplateEpic convertingEnv (JNum 2)) =
     [SetTemplateLoading (JNum 2) True,
      SetTemplateData (JNum 2) (JStr ''<ViewContext/>''),
      ConfigureMap
        (omit (JObj [(''map'', get_prop exampleConfig ''map''), (''layers'', JArr [JStr ''osm'']),
                     (''widgetsConfig'', JObj [])]) ''widgetsConfig'')
        JNull JUndefined,
      SetTemplateLoading (JNum 2) False] \<and>
   omit (JObj [(''map'', get_prop exampleConfig ''map''), (''layers'', JArr [JStr ''osm'']),
               (''widgetsConfig'', JObj [])]) ''widgetsConfig'' =
     JObj [(''map'', get_prop exampleConfig ''map''), (''layers'', JArr [JStr ''osm''])]"
proof -
  let ?cur = "JObj [(''layers'', JArr [JStr ''osm'']), (''widgetsConfig'', JObj [])]"
  let ?merged = "JObj [(''map'', get_prop exampleConfig ''map''), (''layers'', JArr [JStr ''osm'']),
                     (''widgetsConfig'', JObj [])]"
  have a: "emits (mergeTemplateEpic exampleEnv (JNum 1)) =
     [SetTemplateLoading (JNum 1) True,
      ConfigureMap (omit ?merged ''widgetsConfig'') JNull JUndefined,
      SetTemplateLoading (JNum 1) False]"
    using merge_dispatches_merged_config [where env = exampleEnv and i = "JNum 1"
        and template = "exampleTemplates ! 0" and data = exampleConfig and config = exampleConfig
        and currentConfig = ?cur and merged = ?merged, OF find_example_1]
    by (simp add: exampleTemplates_def nullish_def)
       (simp add: exampleEnv_def exampleConfig_def)
  have b: "emits (mergeTemplateEpic convertingEnv (JNum 2)) =
     [SetTemplateLoading (JNum 2) True,
      SetTemplateData (JNum 2) (JStr ''<ViewContext/>''),
      ConfigureMap (omit ?merged ''widgetsConfig'') JNull JUndefined,
      SetTemplateLoading (JNum 2) False]"
    using merge_dispatches_merged_config [where env = convertingEnv and i = "JNum 2"
        and template = "exampleTemplates ! 1" and data = "JStr ''<ViewContext/>''"
        and config = exampleConfig and currentConfig = ?cur and merged = ?merged,
        OF find_converting_2]
    by (simp add: exampleTemplates_def nullish_def)
       (simp add: convertingEnv_def exampleEnv_def exampleConfig_def)
  have c: "omit ?merged ''widgetsConfig'' =
     JObj [(''map'', get_prop exampleConfig ''map''), (''layers'', JArr [JStr ''osm''])]"
    by (simp add: omit_def)
  from a b c show ?thesis by (intro conjI)
qed

lemma merge_dispatch_origin:
  assumes "ConfigureMap c m z \<in> set (emits (mergeTemplateEpic env i))"
  shows "\<exists>template data config currentConfig merged.
           find_template (templates env) i = Inr template \<and> \<not> nullish template \<and>
           (if truthy (get_prop template ''dataLoaded'') then data = get_prop template ''data''
            else getData env i = Inr data) \<and>
           (isObject data \<and> get_prop data ''map'' \<noteq> JUndefined \<or> isString data) \<and>
           (case data of JStr s \<Rightarrow> toMapConfig env s (JBool True) = Inr config
            | _ \<Rightarrow> config = data) \<and>
           savedConfig env = Inr currentConfig \<and>
           mergeMapConfigs env currentConfig config = Inr merged \<and>
           c = omit merged ''widgetsConfig'' \<and> m = JNull \<and> z = JUndefined"
proof -
  from assms obtain template where found: "find_template (templates env) i = Inr template"
    by (cases "find_template (templates env) i") (auto simp: mergeTemplateEpic_def)
  from assms found have nn: "\<not> nullish template"
    by (auto simp: mergeTemplateEpic_def member_def split: if_splits)
  let ?src = "templateSource env i template"
  let ?inner = "switchMap (mergeData env template i) ?src"
  from assms found nn have inner: "ConfigureMap c m z \<in> set (emits ?inner)"
    by (auto simp: mergeTemplateEpic_def member_def dest: ConfigureMap_in_wrap)
  from templateSource_cases [of env i template] inner
  obtain data where src: "emits ?src = [data]" "finish ?src = Completed"
    by (auto simp: switchMap_failed_source)
  from inner src have d: "ConfigureMap c m z \<in> set (emits (mergeData env template i data))"
    by (simp add: switchMap_single_source)
  then have shaped: "mapShaped data"
    by (auto simp: mergeData_def split: if_splits)
  from d shaped obtain currentConfig where cur: "savedConfig env = Inr currentConfig"
    by (cases "savedConfig env") (auto simp: mergeData_def)
  let ?cfg = "mergeSource env data"
  from d shaped cur
  have e: "ConfigureMap c m z \<in> set (emits (switchMap (mergeConfig env template i data currentConfig) ?cfg))"
    by (simp add: mergeData_def)
  from mergeSource_cases [of env data] e
  obtain config where cfg: "emits ?cfg = [config]" "finish ?cfg = Completed"
    by (auto simp: switchMap_failed_source)
  from e cfg have f: "ConfigureMap c m z \<in> set (emits (mergeConfig env template i data currentConfig config))"
    by (simp add: switchMap_single_source)
  then obtain merged where mg: "mergeMapConfigs env currentConfig config = Inr merged"
    by (cases "mergeMapConfigs env currentConfig config") (auto simp: mergeConfig_def)
  from f mg have c: "c = omit merged ''widgetsConfig''" and m: "m = JNull" and z: "z = JUndefined"
    by (auto simp: mergeConfig_def dest: storeData_cases)
  have s1: "if truthy (get_prop template ''dataLoaded'') then data = get_prop template ''data''
            else getData env i = Inr data"
    using src(1) by (simp only: templateSource_emits_iff)
  have s2: "isObject data \<and> get_prop data ''map'' \<noteq> JUndefined \<or> isString data"
    using shaped by (simp add: mapShaped_def)
  have s3: "case data of JStr s \<Rightarrow> toMapConfig env s (JBool True) = Inr config
            | _ \<Rightarrow> config = data"
    using cfg(1) by (simp only: mergeSource_emits_iff)
  show ?thesis
    by (rule exI [of _ template], rule exI [of _ data], rule exI [of _ config],
        rule exI [of _ currentConfig], rule exI [of _ merged])
       (intro conjI found nn s1 s2 s3 cur mg c m z)
qed

lemma find_example_3:
  "find_template (templates exampleEnv) (JNum 3) = Inr (exampleTemplates ! 2)"
  by (simp add: exampleEnv_def exampleTemplates_def member_def nullish_def)

lemma find_example_unknown:
  "find_template (templates exampleEnv) (JNum 9) = Inr JUndefined"
  by (simp add: exampleEnv_def exampleTemplates_def member_def nullish_def)

text \<open>
  C4. When the resolved data of a merge is neither a string nor an object with a defined
  \<open>map\<close>, the pipeline completes without an error, so the exception stream is not
  entered: the epic emits the loading actions around at most the \<open>SetTemplateData\<close>
  of a first fetch, with no \<open>ConfigureMap\<close> and no error notification.
\<close>

theorem merge_skips_unshaped_data:
  assumes "find_template (templates env) i = Inr template" and "\<not> nullish template"
    and "emits (templateSource env i template) = [data]"
    and "\<not> isString data" and "\<not> (isObject data \<and> get_prop data ''map'' \<noteq> JUndefined)"
  shows "emits (mergeTemplateEpic env i) =
           SetTemplateLoading i True # storeData template i data @ [SetTemplateLoading i False] \<and>
         finish (mergeTemplateEpic env i) = Completed \<and>
         finish (switchMap (mergeData env template i) (templateSource env i template)) = Completed \<and>
         (\<forall>c m z. ConfigureMap c m z \<notin> set (emits (mergeTemplateEpic env i))) \<and>
         (\<forall>n. ShowError n \<notin> set (emits (mergeTemplateEpic env i)))"
proof -
  let ?src = "templateSource env i template"
  let ?inner = "switchMap (mergeData env template i) ?src"
  have fin: "finish ?src = Completed"
    using assms(3) by (rule templateSource_finish)
  have ns: "\<not> mapShaped data"
    using assms(4,5) by (simp add: mapShaped_def)
  have md: "emits (mergeData env template i data) = storeData template i data"
      "finish (mergeData env template i data) = Completed"
    using ns by (simp_all add: mergeData_def storeData_def)
  have inner: "emits ?inner = storeData template i data" "finish ?inner = Completed"
    using md by (simp_all add: switchMap_single_source [OF assms(3) fin])
  have epic: "mergeTemplateEpic env i =
      wrapStartStop (SetTemplateLoading i True) (SetTemplateLoading i False)
        (templateErrorStream env) ?inner"
    using assms(1,2) by (simp add: mergeTemplateEpic_def member_def)
  have em: "emits (mergeTemplateEpic env i) =
      SetTemplateLoading i True # storeData template i data @ [SetTemplateLoading i False]"
    and fi: "finish (mergeTemplateEpic env i) = Completed"
    unfolding epic using inner by (simp_all add: wrapStartStop_fields)
  have "\<forall>c m z. ConfigureMap c m z \<notin> set (emits (mergeTemplateEpic env i))"
    unfolding em by (auto simp: storeData_def)
  moreover have "\<forall>n. ShowError n \<notin> set (emits (mergeTemplateEpic env i))"
    unfolding em by (auto simp: storeData_def)
  ultimately show ?thesis using em fi inner by blast
qed

theorem merge_skips_unshaped_data_witness:
  "emits (mergeTemplateEpic exampleEnv (JNum 3)) =
     [SetTemplateLoading (JNum 3) True, SetTemplateLoading (JNum 3) False] \<and>
   finish (mergeTemplateEpic exampleEnv (JNum 3)) = Completed"
  using merge_skips_unshaped_data [OF find_example_3, of "JNum 7"]
  by (simp add: exampleTemplates_def nullish_def templateSource_def storeData_def)

subsection \<open>A template id that matches no template\<close>

lemma unknown_template_throws:
  assumes "find_template (templates env) i = Inr JUndefined"
  shows "mergeTemplateEpic env i = Observable_throw TypeError"
    and "replaceTemplateEpic env i = Observable_throw TypeError"
  using assms
  by (simp_all add: mergeTemplateEpic_def replaceTemplateEpic_def member_def nullish_def
      split: sum.splits)

text \<open>
  C7. An invocation whose id matches no template throws at \<open>template.dataLoaded\<close>,
  before \<open>wrapStartStop\<close> is applied: neither epic emits any action, so the
  sequence has no \<open>SetTemplateLoading(id, true)\<close> and no
  \<open>SetTemplateLoading(id, false)\<close>.
\<close>

theorem unknown_template_emits_nothing:
  "find_template (templates exampleEnv) (JNum 9) = Inr JUndefined \<and>
   emits (mergeTemplateEpic exampleEnv (JNum 9)) = [] \<and>
   emits (replaceTemplateEpic exampleEnv (JNum 9)) = []"
  by (simp add: find_example_unknown unknown_template_throws)

text \<open>
  C8. For the same invocation the exception is outside the stream whose errors the
  epics catch: the output of each epic ends with the \<open>TypeError\<close>, and no error
  notification is emitted.
\<close>

theorem unknown_template_unhandled:
  "finish (mergeTemplateEpic exampleEnv (JNum 9)) = Errored TypeError \<and>
   finish (replaceTemplateEpic exampleEnv (JNum 9)) = Errored TypeError \<and>
   (\<forall>n. ShowError n \<notin> set (emits (mergeTemplateEpic exampleEnv (JNum 9)))) \<and>
   (\<forall>n. ShowError n \<notin> set (emits (replaceTemplateEpic exampleEnv (JNum 9))))"
  by (simp add: find_example_unknown unknown_template_throws)

subsection \<open>The replace epic\<close>

lemma replace_example_1:
  "replaceTemplateEpic exampleEnv (JNum 1) =
     \<lparr>emits =
        [SetTemplateLoading (JNum 1) True,
         ConfigureMap
           (JObj [(''version'', JNum 2),
                  (''map'', JObj [(''zoom'', JNum 5),
                                  (''center'', JObj [(''x'', JNum 11), (''y'', JNum 44)]),
                                  (''bbox'', JObj [(''crs'', JStr ''EPSG:4326'')])])])
           JNull (JObj [(''crs'', JStr ''EPSG:4326'')]),
         SetTemplateLoading (JNum 1) False],
      finish = Completed, fetches = []\<rparr>"
  by (rule obs.equality)
     (simp_all add: find_example_1 exampleTemplates_def epic_defs exampleConfig_def,
      simp_all add: exampleEnv_def)


lemma map_of_update:
  "map_of (AList.update k v ps) k' = (if k' = k then Some v else map_of ps k')"
  by (simp add: update_conv')









text \<open>
  C6. The configuration of the first example template has zoom 0 and a bounding box.
  Replacing with it, the \<open>ConfigureMap\<close> action carries the bounding box as its
  "fit to extent" flag, a truthy value, although the map of the new configuration has
  a zoom.
\<close>

theorem fit_to_extent_with_zoom_zero:
  "get_prop (get_prop exampleConfig ''map'') ''zoom'' = JNum 0 \<and>
   get_prop (get_prop exampleConfig ''map'') ''bbox'' = JObj [(''crs'', JStr ''EPSG:4326'')] \<and>
   truthy (JObj [(''crs'', JStr ''EPSG:4326'')]) \<and>
   ConfigureMap
     (JObj [(''version'', JNum 2),
            (''map'', JObj [(''zoom'', JNum 5),
                            (''center'', JObj [(''x'', JNum 11), (''y'', JNum 44)]),
                            (''bbox'', JObj [(''crs'', JStr ''EPSG:4326'')])])])
     JNull (JObj [(''crs'', JStr ''EPSG:4326'')])
     \<in> set (emits (replaceTemplateEpic exampleEnv (JNum 1)))"
  by (simp add: replace_example_1) (simp add: exampleConfig_def)

subsection \<open>The loading actions of a template that is found\<close>

lemma templateErrorStream_finish:
  "finish (templateErrorStream env e) = (if nullish e then Errored TypeError else Completed)"
proof (cases "nullish e")
  case True
  then show ?thesis by (simp add: templateErrorStream_def member_def)
next
  case False
  then have "js_or (get_prop e ''originalError'') e \<noteq> JNull"
    by (rule js_or_not_null)
  from errorToMessageId_not_null [OF this] False show ?thesis
    by (simp add: templateErrorStream_def member_def)
qed

lemma emits_templateErrorStream_loading:
  "x \<in> set (emits (templateErrorStream env e)) \<Longrightarrow> \<not> loadingAction x"
  by (auto dest: emits_templateErrorStream)

lemma emits_mergeData_loading:
  assumes "x \<in> set (emits (mergeData env t i data))"
  shows "\<not> loadingAction x"
proof (cases "mapShaped data")
  case False
  with assms show ?thesis by (auto simp: mergeData_def split: if_splits)
next
  case True
  show ?thesis
  proof (cases "savedConfig env")
    case (Inl e)
    with assms True show ?thesis by (simp add: mergeData_def)
  next
    case (Inr cur)
    with assms True
    have x: "x \<in> set (emits (switchMap (mergeConfig env t i data cur) (mergeSource env data)))"
      by (simp add: mergeData_def)
    from mergeSource_cases [of env data] x
    obtain config where "emits (mergeSource env data) = [config]"
        "finish (mergeSource env data) = Completed"
      by (auto simp: switchMap_failed_source)
    with x have "x \<in> set (emits (mergeConfig env t i data cur config))"
      by (simp add: switchMap_single_source)
    then show ?thesis
      by (auto simp: mergeConfig_def dest: storeData_cases split: sum.splits)
  qed
qed

lemma emits_replaceData_loading:
  assumes "x \<in> set (emits (replaceData env t i z c data))"
  shows "\<not> loadingAction x"
proof -
  from assms
  have x: "x \<in> set (emits (switchMap (replaceConfig t i z c data) (replaceSource env data)))"
    by (simp add: replaceData_def)
  from replaceSource_cases [of env data] x
  obtain config where "emits (replaceSource env data) = [config]"
      "finish (replaceSource env data) = Completed"
    by (auto simp: switchMap_failed_source)
  with x have "x \<in> set (emits (replaceConfig t i z c data config))"
    by (simp add: switchMap_single_source)
  then show ?thesis
    by (auto simp: replaceConfig_def replaceAction_def Let_def dest: storeData_cases
        split: sum.splits if_splits)
qed

lemma emits_resolved_loading:
  assumes "\<And>data x. x \<in> set (emits (f data)) \<Longrightarrow> \<not> loadingAction x"
    and "x \<in> set (emits (switchMap f (templateSource env i t)))"
  shows "\<not> loadingAction x"
proof -
  from templateSource_cases [of env i t] assms(2)
  obtain data where "emits (templateSource env i t) = [data]"
      "finish (templateSource env i t) = Completed"
    by (auto simp: switchMap_failed_source)
  with assms(2) have "x \<in> set (emits (f data))"
    by (simp add: switchMap_single_source)
  then show ?thesis by (rule assms(1))
qed

lemma wrapStartStop_loading:
  assumes "\<And>x. x \<in> set (emits s) \<Longrightarrow> \<not> loadingAction x"
  shows "filter loadingAction
           (emits (wrapStartStop (SetTemplateLoading i True) (SetTemplateLoading i False)
              (templateErrorStream env) s)) =
         (if \<exists>e. finish s = Errored e \<and> nullish e then [SetTemplateLoading i True]
          else [SetTemplateLoading i True, SetTemplateLoading i False])"
    and "finish (wrapStartStop (SetTemplateLoading i True) (SetTemplateLoading i False)
              (templateErrorStream env) s) =
         (if \<exists>e. finish s = Errored e \<and> nullish e then Errored TypeError else Completed)"
    and "finish (wrapStartStop (SetTemplateLoading i True) (SetTemplateLoading i False)
              (templateErrorStream env) s) = Completed \<Longrightarrow>
         hd (emits (wrapStartStop (SetTemplateLoading i True) (SetTemplateLoading i False)
              (templateErrorStream env) s)) = SetTemplateLoading i True \<and>
         last (emits (wrapStartStop (SetTemplateLoading i True) (SetTemplateLoading i False)
              (templateErrorStream env) s)) = SetTemplateLoading i False"
proof -
  have s: "filter loadingAction (emits s) = []"
    using assms by (simp add: filter_empty_conv)
  have h: "filter loadingAction (emits (templateErrorStream env e)) = []" for e
    using emits_templateErrorStream_loading by (simp add: filter_empty_conv)
  show "filter loadingAction
           (emits (wrapStartStop (SetTemplateLoading i True) (SetTemplateLoading i False)
              (templateErrorStream env) s)) =
         (if \<exists>e. finish s = Errored e \<and> nullish e then [SetTemplateLoading i True]
          else [SetTemplateLoading i True, SetTemplateLoading i False])"
    by (cases "finish s") (simp_all add: wrapStartStop_fields templateErrorStream_finish s h)
  show "finish (wrapStartStop (SetTemplateLoading i True) (SetTemplateLoading i False)
              (templateErrorStream env) s) =
         (if \<exists>e. finish s = Errored e \<and> nullish e then Errored TypeError else Completed)"
    by (cases "finish s") (simp_all add: wrapStartStop_fields templateErrorStream_finish)
  show "hd (emits (wrapStartStop (SetTemplateLoading i True) (SetTemplateLoading i False)
              (templateErrorStream env) s)) = SetTemplateLoading i True \<and>
         last (emits (wrapStartStop (SetTemplateLoading i True) (SetTemplateLoading i False)
              (templateErrorStream env) s)) = SetTemplateLoading i False"
    if "finish (wrapStartStop (SetTemplateLoading i True) (SetTemplateLoading i False)
              (templateErrorStream env) s) = Completed"
    using that
    by (cases "finish s") (auto simp: wrapStartStop_fields split: ending.splits)
qed

lemma merge_loading_sequence:
  assumes "find_template (templates env) i = Inr template" and "\<not> nullish template"
    and "finish (mergeTemplateEpic env i) = Completed"
  shows "filter loadingAction (emits (mergeTemplateEpic env i)) =
           [SetTemplateLoading i True, SetTemplateLoading i False] \<and>
         hd (emits (mergeTemplateEpic env i)) = SetTemplateLoading i True \<and>
         last (emits (mergeTemplateEpic env i)) = SetTemplateLoading i False"
proof -
  let ?inner = "switchMap (mergeData env template i) (templateSource env i template)"
  have epic: "mergeTemplateEpic env i =
      wrapStartStop (SetTemplateLoading i True) (SetTemplateLoading i False)
        (templateErrorStream env) ?inner"
    using assms(1,2) by (simp add: mergeTemplateEpic_def member_def)
  have inner: "\<not> loadingAction x" if "x \<in> set (emits ?inner)" for x
    using emits_mergeData_loading that by (rule emits_resolved_loading)
  from wrapStartStop_loading [of ?inner i env, OF inner] assms(3)
  show ?thesis unfolding epic by (auto split: if_splits)
qed

lemma replace_loading_sequence:
  assumes "find_template (templates env) i = Inr template" and "\<not> nullish template"
    and "finish (replaceTemplateEpic env i) = Completed"
  shows "filter loadingAction (emits (replaceTemplateEpic env i)) =
           [SetTemplateLoading i True, SetTemplateLoading i False] \<and>
         hd (emits (replaceTemplateEpic env i)) = SetTemplateLoading i True \<and>
         last (emits (replaceTemplateEpic env i)) = SetTemplateLoading i False"
proof -
  let ?inner = "switchMap
      (replaceData env template i (get_prop (currentMap env) ''zoom'')
         (get_prop (currentMap env) ''center''))
      (templateSource env i template)"
  from assms(1,3) have nm: "\<not> nullish (currentMap env)"
    by (auto simp: replaceTemplateEpic_def member_def split: if_splits)
  have epic: "replaceTemplateEpic env i =
      wrapStartStop (SetTemplateLoading i True) (SetTemplateLoading i False)
        (templateErrorStream env) ?inner"
    using assms(1,2) nm by (simp add: replaceTemplateEpic_def member_def)
  have inner: "\<not> loadingAction x" if "x \<in> set (emits ?inner)" for x
    using emits_replaceData_loading that by (rule emits_resolved_loading)
  from wrapStartStop_loading [of ?inner i env, OF inner] assms(3)
  show ?thesis unfolding epic by (auto split: if_splits)
qed

subsection \<open>The error notification\<close>












subsection \<open>The templates panel epic\<close>

lemma newTemplate_flags:
  assumes "newTemplate r = Inr t"
  shows "get_prop t ''dataLoaded'' = JBool False" and "get_prop t ''loading'' = JBool False"
  using assms by (auto simp: newTemplate_def map_of_update split: sum.splits)

lemma newTemplates_flags:
  assumes "newTemplates rs = Inr ts"
  shows "length ts = length rs \<and>
         (\<forall>t\<in>set ts. get_prop t ''dataLoaded'' = JBool False \<and> get_prop t ''loading'' = JBool False)"
  using assms
proof (induction rs arbitrary: ts)
  case Nil
  then show ?case by simp
next
  case (Cons r rs)
  from Cons.prems obtain t ts' where t: "newTemplate r = Inr t"
    and ts': "newTemplates rs = Inr ts'" and ts: "ts = t # ts'"
    by (auto split: sum.splits)
  from Cons.IH [OF ts'] newTemplate_flags [OF t] ts show ?case by simp
qed

lemma resourcesOf_single:
  assumes "\<not> isArray (lodash_get data [''ResourceList'', ''Resource''] (JArr []))"
  shows "resourcesOf data = [lodash_get data [''ResourceList'', ''Resource''] (JArr [])]"
  using assms
  by (cases "lodash_get data [''ResourceList'', ''Resource''] (JArr [])")
     (simp_all add: resourcesOf_def)

lemma searchSource_cases:
  "(\<exists>data. emits (searchSource env) = [data] \<and> finish (searchSource env) = Completed) \<or>
   (\<exists>e. emits (searchSource env) = [] \<and> finish (searchSource env) = Errored e)"
  by (simp add: searchSource_def Observable_defer_def split: sum.splits)

lemma panel_example:
  "emits (openMapTemplatesPanelEpic exampleEnv) =
     [SetControlProperty ''mapTemplates'' ''enabled'' (JBool True) (JBool True),
      SetTemplates (JArr [JObj [(''id'', JNum 1), (''name'', JStr ''base''),
                                (''thumbnail'', JUndefined), (''dataLoaded'', JBool False),
                                (''loading'', JBool False)]]),
      SetMapTemplatesLoaded True JUndefined]"
  by (simp add: openMapTemplatesPanelEpic_def exampleEnv_def concat_obs_fields catch_obs_fields
      searchSource_def makeFilter_def member_def nullish_def Observable_defer_def
      switchMap_of_single templatesLoaded_def resourcesOf_def lodash_get_def newTemplate_def
      extractThumbnail_def pick_def)

text \<open>
  C10. Whenever the templates panel epic emits \<open>SetTemplates\<close>, its value is an
  array with one template for each resource of the search result, every template has
  \<open>dataLoaded\<close> and \<open>loading\<close> set to \<open>false\<close>, and a result whose
  \<open>ResourceList.Resource\<close> is a single resource rather than an array gives an array
  of exactly one template.
\<close>

theorem templates_panel_templates:
  assumes "SetTemplates v \<in> set (emits (openMapTemplatesPanelEpic env))"
  shows "\<exists>data ts.
           emits (searchSource env) = [data] \<and>
           newTemplates (resourcesOf data) = Inr ts \<and>
           v = JArr ts \<and>
           length ts = length (resourcesOf data) \<and>
           (\<forall>t\<in>set ts. get_prop t ''dataLoaded'' = JBool False \<and>
                        get_prop t ''loading'' = JBool False) \<and>
           (\<not> isArray (lodash_get data [''ResourceList'', ''Resource''] (JArr [])) \<longrightarrow>
              resourcesOf data = [lodash_get data [''ResourceList'', ''Resource''] (JArr [])] \<and>
              length ts = 1)"
proof -
  let ?src = "searchSource env"
  from assms have x: "SetTemplates v \<in> set (emits (switchMap templatesLoaded ?src))"
    by (auto simp: openMapTemplatesPanelEpic_def concat_obs_fields catch_obs_fields
        split: if_splits ending.splits)
  from searchSource_cases [of env] x
  obtain data where src: "emits ?src = [data]" "finish ?src = Completed"
    by (auto simp: switchMap_failed_source)
  from x src have y: "SetTemplates v \<in> set (emits (templatesLoaded data))"
    by (simp add: switchMap_single_source)
  then obtain ts where ts: "newTemplates (resourcesOf data) = Inr ts" and v: "v = JArr ts"
    by (cases "newTemplates (resourcesOf data)") (auto simp: templatesLoaded_def)
  note fl = newTemplates_flags [OF ts]
  have "resourcesOf data = [lodash_get data [''ResourceList'', ''Resource''] (JArr [])] \<and> length ts = 1"
    if "\<not> isArray (lodash_get data [''ResourceList'', ''Resource''] (JArr []))"
    using resourcesOf_single [OF that] fl by simp
  with src(1) ts v fl show ?thesis
    by (intro exI [of _ data] exI [of _ ts]) simp
qed

theorem templates_panel_templates_witness:
  "SetTemplates (JArr [JObj [(''id'', JNum 1), (''name'', JStr ''base''),
                             (''thumbnail'', JUndefined), (''dataLoaded'', JBool False),
                             (''loading'', JBool False)]])
     \<in> set (emits (openMapTemplatesPanelEpic exampleEnv)) \<and>
   (\<exists>data ts.
      emits (searchSource exampleEnv) = [data] \<and>
      \<not> isArray (lodash_get data [''ResourceList'', ''Resource''] (JArr [])) \<and>
      newTemplates (resourcesOf data) = Inr ts \<and> length ts = 1 \<and>
      (\<forall>t\<in>set ts. get_prop t ''dataLoaded'' = JBool False \<and>
                   get_prop t ''loading'' = JBool False))"
proof -
  let ?v = "JArr [JObj [(''id'', JNum 1), (''name'', JStr ''base''),
                             (''thumbnail'', JUndefined), (''dataLoaded'', JBool False),
                             (''loading'', JBool False)]]"
  have h: "SetTemplates ?v \<in> set (emits (openMapTemplatesPanelEpic exampleEnv))"
    by (simp add: panel_example)
  from templates_panel_templates [OF h]
  obtain data ts where
    r: "emits (searchSource exampleEnv) = [data]"
       "newTemplates (resourcesOf data) = Inr ts"
       "length ts = length (resourcesOf data)"
       "\<forall>t\<in>set ts. get_prop t ''dataLoaded'' = JBool False \<and> get_prop t ''loading'' = JBool False"
    by (elim exE conjE) (rule that)
  from r(1) have d: "data = JObj [(''ResourceList'',
                JObj [(''Resource'', JObj [(''id'', JNum 1), (''name'', JStr ''base'')])])]"
    by (simp add: searchSource_def exampleEnv_def makeFilter_def member_def nullish_def
        Observable_defer_def Observable_of_def)
  have a: "\<not> isArray (lodash_get data [''ResourceList'', ''Resource''] (JArr []))"
    unfolding d by (simp add: lodash_get_def nullish_def)
  have l: "length ts = 1"
    using r(3) resourcesOf_single [OF a] by simp
  show ?thesis
    by (rule conjI [OF h]) (intro exI [of _ data] exI [of _ ts] conjI r(1) a r(2) l r(4))
qed

subsection \<open>The share panel's coordinates\<close>

lemma getCoordinates_no_point_no_center:
  "getCoordinates correctLng (JObj []) = Inr (CenterObject, JObj [(''lat'', JStr []), (''lon'', JStr [])])"
  by (simp add: getCoordinates_def getLatLng_def or_literal_def member_def nullish_def
      js_or_def js_and_def)

text \<open>
  C9. In \<open>getCoordinates\<close> the left operand of \<open>||\<close> is an object literal and so
  truthy whatever \<open>x\<close> and \<open>y\<close> are, \<open>||\<close> yields it whatever the right operand
  is, and for no props does \<open>getCoordinates\<close> return the object of the fallback
  literal. (Without a point and a centre the object returned is \<open>{lat: y, lon: x}\<close>
  with both taken from the default \<open>{x: "", y: ""}\<close>, as
  \<open>getCoordinates_no_point_no_center\<close> shows: equal to the fallback in its
  properties, but not made by it.)
\<close>

theorem fallback_is_dead_code:
  "truthy (JObj [(''lat'', y), (''lon'', x)]) \<and>
   or_literal (CenterObject, JObj [(''lat'', y), (''lon'', x)]) fallback =
     (CenterObject, JObj [(''lat'', y), (''lon'', x)]) \<and>
   (\<forall>v. getCoordinates correctLng props \<noteq> Inr (FallbackObject, v))"
  by (auto simp: getCoordinates_def or_literal_def Let_def split: sum.splits)

theorem fallback_is_dead_code_witness:
  "getCoordinates (\<lambda>v. v) (JObj [(''center'', JObj [(''x'', JNum 9), (''y'', JNum 45)])]) =
     Inr (CenterObject, JObj [(''lat'', JNum 45), (''lon'', JNum 9)]) \<and>
   getCoordinates (\<lambda>v. v) (JObj [(''center'', JObj [(''x'', JNum 9), (''y'', JNum 45)])]) \<noteq>
     Inr (FallbackObject, JObj [(''lat'', JStr []), (''lon'', JStr [])])"
  using fallback_is_dead_code [of "JNum 45" "JNum 9" "(FallbackObject, JNull)" "\<lambda>v. v"
      "JObj [(''center'', JObj [(''x'', JNum 9), (''y'', JNum 45)])]"]
  by (simp add: getCoordinates_def getLatLng_def or_literal_def member_def nullish_def
      js_or_def js_and_def)

end
